theory Spec2Isabelle
  imports Complex_Main "HOL-Library.Product_Lexorder"
begin

section \<open>Numeric conventions\<close>

text \<open>
  The program is Python.  Its \<open>int\<close> values are modelled as \<open>int\<close>, its \<open>float\<close>
  values as exact reals: every arithmetic operation below is the mathematical one, and
  the rounding error, overflow and NaN behaviour of IEEE doubles are outside the model.
  Exceptions are values of the type \<open>error\<close>; a function that can raise returns
  \<open>error + 'a\<close> with \<open>Inl\<close> for the exception.
\<close>

datatype error = KeyError | ZeroDivisionError | IndexError

text \<open>Sequencing of fallible steps: the first exception raised is the result.\<close>

definition bind_err :: "error + 'a \<Rightarrow> ('a \<Rightarrow> error + 'b) \<Rightarrow> error + 'b" where
  "bind_err m f = (case m of Inl e \<Rightarrow> Inl e | Inr v \<Rightarrow> f v)"

text \<open>
  \<^verbatim>\<open>round(x)\<close> rounds to the nearest integer, halves to the even neighbour;
  \<^verbatim>\<open>round(x, n)\<close> does so at \<open>n\<close> decimal places; \<^verbatim>\<open>int(x)\<close> truncates towards zero.
\<close>

definition py_round :: "real \<Rightarrow> int" where
  "py_round x =
     (let f = \<lfloor>x\<rfloor>; d = x - of_int f
      in if d < 1 / 2 then f else if 1 / 2 < d then f + 1 else if even f then f else f + 1)"

definition py_round_nd :: "real \<Rightarrow> nat \<Rightarrow> real" where
  "py_round_nd x n = of_int (py_round (x * 10 ^ n)) / 10 ^ n"

definition py_int :: "real \<Rightarrow> int" where
  "py_int x = (if 0 \<le> x then \<lfloor>x\<rfloor> else \<lceil>x\<rceil>)"

section \<open>The rules-based fallback model\<close>

text \<open>
  \<^verbatim>\<open>X\<close> is a sequence of rows \<open>(monthly_income, loan_amount, credit_score)\<close>; both
  methods read \<^verbatim>\<open>X[0]\<close> only, which raises \<open>IndexError\<close> on an empty sequence.
\<close>

type_synonym features = "real \<times> real \<times> real"

definition predict :: "features list \<Rightarrow> error + int list" where
  "predict X =
     (case X of
        [] \<Rightarrow> Inl IndexError
      | (monthly_income, loan_amount, credit_score) # _ \<Rightarrow>
          (let income_gate = (monthly_income \<ge> loan_amount / 120);
               credit_gate = (credit_score \<ge> 650)
           in Inr [if income_gate \<and> credit_gate then 1 else 0]))"

definition predict_proba :: "features list \<Rightarrow> error + real list list" where
  "predict_proba X =
     (case X of
        [] \<Rightarrow> Inl IndexError
      | (monthly_income, loan_amount, credit_score) # _ \<Rightarrow>
          (let score = 0.22;
               score = score + min (max ((credit_score - 500) / 360) 0) 0.53;
               score = score + min (max ((monthly_income - loan_amount / 120) / 120000) 0) 0.2;
               approved = min (max score 0.05) 0.95
           in Inr [[1 - approved, approved]]))"



section \<open>Reference data\<close>

record bank =
  name :: string
  base_rate :: real
  min_credit :: int
  max_foir :: real
  processing_fee :: real

definition mk_bank :: "string \<Rightarrow> real \<Rightarrow> int \<Rightarrow> real \<Rightarrow> real \<Rightarrow> bank" where
  "mk_bank n r c f p =
     \<lparr>name = n, base_rate = r, min_credit = c, max_foir = f, processing_fee = p\<rparr>"

definition BANKS :: "string \<rightharpoonup> bank list" where
  "BANKS = map_of
     [(''Home'',
        [mk_bank ''SBI'' 8.35 680 0.55 0.6,
         mk_bank ''HDFC'' 8.55 710 0.52 0.75,
         mk_bank ''Axis'' 8.72 695 0.54 0.7,
         mk_bank ''ICICI'' 8.68 700 0.53 0.8]),
      (''Education'',
        [mk_bank ''SBI'' 8.95 650 0.58 0.5,
         mk_bank ''Bank of Baroda'' 9.1 640 0.59 0.4,
         mk_bank ''Axis'' 9.25 655 0.57 0.65]),
      (''Personal'',
        [mk_bank ''HDFC'' 11.2 730 0.48 1.3,
         mk_bank ''ICICI'' 11.45 725 0.5 1.1,
         mk_bank ''Axis'' 11.8 710 0.5 1.2]),
      (''Business'',
        [mk_bank ''HDFC'' 10.45 700 0.55 1.0,
         mk_bank ''ICICI'' 10.8 695 0.56 1.1,
         mk_bank ''Kotak'' 10.95 690 0.57 0.95])]"



section \<open>The instalment formula\<close>

text \<open>
  \<^verbatim>\<open>princ\<close> is the source's \<^verbatim>\<open>principal\<close>; \<^verbatim>\<open>months\<close> is an \<open>int\<close>.  A division by
  zero raises \<open>ZeroDivisionError\<close>, and so does a zero base raised to a negative power.
\<close>

definition emi :: "real \<Rightarrow> real \<Rightarrow> int \<Rightarrow> error + real" where
  "emi princ annual_rate months =
     (let monthly_rate = annual_rate / 12 / 100
      in if monthly_rate = 0
         then (if months = 0 then Inl ZeroDivisionError else Inr (princ / of_int months))
         else if 1 + monthly_rate = 0 \<and> months < 0 then Inl ZeroDivisionError
         else (let factor = power_int (1 + monthly_rate) months
               in if factor - 1 = 0 then Inl ZeroDivisionError
                  else Inr (princ * monthly_rate * factor / (factor - 1))))"

section \<open>The risk scorer\<close>

text \<open>The three bands of \<^verbatim>\<open>profile_risk\<close>, each an update of the running score.\<close>

definition credit_band :: "int \<Rightarrow> int \<Rightarrow> int" where
  "credit_band credit_score risk_score =
     (if credit_score \<ge> 760 then risk_score - 35
      else if credit_score \<ge> 700 then risk_score - 22
      else if credit_score \<ge> 650 then risk_score - 10
      else risk_score)"

definition foir_band :: "real \<Rightarrow> int \<Rightarrow> int" where
  "foir_band foir risk_score =
     (if foir \<le> 0.35 then risk_score - 25
      else if foir \<le> 0.45 then risk_score - 15
      else if foir \<le> 0.55 then risk_score - 5
      else risk_score + 20)"

definition stability_band :: "real \<Rightarrow> int \<Rightarrow> int" where
  "stability_band stability risk_score =
     (if stability \<ge> 0.95 then risk_score - 12
      else if stability < 0.8 then risk_score + 10
      else risk_score)"

definition profile_risk :: "int \<Rightarrow> real \<Rightarrow> real \<Rightarrow> string \<times> int" where
  "profile_risk credit_score foir stability =
     (let risk_score = 100;
          risk_score = credit_band credit_score risk_score;
          risk_score = foir_band foir risk_score;
          risk_score = stability_band stability risk_score;
          risk_score = max 5 (min 95 risk_score)
      in if risk_score \<le> 35 then (''Low'', risk_score)
         else if risk_score \<le> 60 then (''Medium'', risk_score)
         else (''High'', risk_score))"

section \<open>Profiles and offers\<close>

text \<open>
  The parsed form values of one request, and the profile dictionary the request handler
  builds from them (its \<^verbatim>\<open>generated_at\<close> time stamp is left out).
\<close>

record form =
  full_name :: string
  age :: int
  employment :: string
  monthly_income :: real
  monthly_expenses :: real
  existing_emi :: real
  credit_score :: int
  loan_amount :: real
  tenure_months :: int
  loan_type :: string

record profile = form +
  disposable_income :: real
  foir :: real
  stability :: real

text \<open>The offer dictionary; the field \<open>o_k\<close> is its key \<^verbatim>\<open>k\<close>.\<close>

record offer =
  o_bank :: string
  o_rate :: real
  o_emi :: int
  o_total_payable :: int
  o_processing_fee :: real
  o_approval :: int
  o_foir :: real
  o_tag :: string

section \<open>The explanation generator\<close>


section \<open>Offer matching and ranking\<close>

definition credit_adjustment :: "profile \<Rightarrow> real" where
  "credit_adjustment p =
     (if credit_score p \<ge> 760 then - 0.35 else (if credit_score p \<ge> 720 then - 0.15 else 0.2))"

definition foir_adjustment :: "profile \<Rightarrow> real" where
  "foir_adjustment p = (if foir p \<le> 0.4 then - 0.1 else (if foir p > 0.5 then 0.25 else 0))"

definition stability_adjustment :: "profile \<Rightarrow> real" where
  "stability_adjustment p =
     (if stability p \<ge> 1 then - 0.1 else (if stability p < 0.8 then 0.2 else 0))"

definition effective_rate :: "profile \<Rightarrow> bank \<Rightarrow> real" where
  "effective_rate p b =
     py_round_nd
       (max (base_rate b + credit_adjustment p + foir_adjustment p + stability_adjustment p)
            7.75) 2"

text \<open>
  One pass of the loop body for the lender \<open>b\<close>: \<open>Inr None\<close> is \<^verbatim>\<open>continue\<close>,
  \<open>Inr (Some x)\<close> is \<^verbatim>\<open>offers.append(x)\<close>.
\<close>

definition bank_offer :: "profile \<Rightarrow> int \<Rightarrow> bank \<Rightarrow> error + offer option" where
  "bank_offer p conf b =
     (if credit_score p < min_credit b then Inr None
      else
        let eff = effective_rate p b
        in bind_err (emi (loan_amount p) eff (tenure_months p)) (\<lambda>monthly_emi.
             let combined_obligation = existing_emi p + monthly_emi
             in if monthly_income p = 0 then Inl ZeroDivisionError
                else
                  let actual_foir = combined_obligation / monthly_income p
                  in if actual_foir > max_foir b then Inr None
                     else
                       let payable = monthly_emi * of_int (tenure_months p);
                           processing = loan_amount p * (processing_fee b / 100);
                           bank_fit = 100;
                           bank_fit = bank_fit - (eff - base_rate b) * 10;
                           bank_fit = bank_fit - max (actual_foir - 0.35) 0 * 120;
                           bank_fit = bank_fit + (of_int conf - 50) * 0.2;
                           bank_fit = py_int (max 35 (min 98 bank_fit))
                       in Inr (Some
                            \<lparr>o_bank = name b,
                             o_rate = eff,
                             o_emi = py_round monthly_emi,
                             o_total_payable = py_round (payable + processing),
                             o_processing_fee = py_round_nd (processing_fee b) 2,
                             o_approval = bank_fit,
                             o_foir = py_round_nd (actual_foir * 100) 1,
                             o_tag = (if eff \<le> base_rate b then ''Best Rate''
                                      else ''Fast Approval'')\<rparr>)))"

text \<open>The \<^verbatim>\<open>for\<close> loop over the lenders, \<open>acc\<close> being the list \<^verbatim>\<open>offers\<close> so far.\<close>

fun offers_loop :: "profile \<Rightarrow> int \<Rightarrow> bank list \<Rightarrow> offer list \<Rightarrow> error + offer list" where
  "offers_loop p conf [] acc = Inr acc"
| "offers_loop p conf (b # bs) acc =
     (case bank_offer p conf b of
        Inl e \<Rightarrow> Inl e
      | Inr None \<Rightarrow> offers_loop p conf bs acc
      | Inr (Some x) \<Rightarrow> offers_loop p conf bs (acc @ [x]))"

text \<open>
  The sort key \<^verbatim>\<open>(x["rate"], -x["approval"], x["emi"])\<close>; tuples compare
  lexicographically, and \<^verbatim>\<open>list.sort\<close> is a stable ascending sort.
\<close>

definition offer_key :: "offer \<Rightarrow> real \<times> int \<times> int" where
  "offer_key x = (o_rate x, - o_approval x, o_emi x)"

definition build_offers :: "profile \<Rightarrow> int \<Rightarrow> int \<Rightarrow> error + offer list" where
  "build_offers p prediction conf =
     (let acc = []
      in if prediction \<noteq> 1 then Inr acc
         else (case BANKS (loan_type p) of
                 None \<Rightarrow> Inl KeyError
               | Some banks \<Rightarrow>
                   bind_err (offers_loop p conf banks acc) (\<lambda>acc. Inr (sort_key offer_key acc))))"

text \<open>
  What the loop appends for the lender \<open>b\<close>, if anything, when its body raises nothing;
  \<open>emits\<close> tells whether it appends.
\<close>

definition emitted_offer :: "profile \<Rightarrow> int \<Rightarrow> bank \<Rightarrow> offer option" where
  "emitted_offer p conf b = (case bank_offer p conf b of Inr (Some x) \<Rightarrow> Some x | _ \<Rightarrow> None)"

definition emits :: "profile \<Rightarrow> int \<Rightarrow> bank \<Rightarrow> bool" where
  "emits p conf b = (emitted_offer p conf b \<noteq> None)"

text \<open>
  The ranking relation in the words of the specification: lower rate first, then higher
  approval fit, then lower (or equal) instalment.
\<close>

definition ranks_before :: "offer \<Rightarrow> offer \<Rightarrow> bool" where
  "ranks_before A B \<longleftrightarrow>
     o_rate A < o_rate B
     \<or> (o_rate A = o_rate B \<and> o_approval A > o_approval B)
     \<or> (o_rate A = o_rate B \<and> o_approval A = o_approval B \<and> o_emi A \<le> o_emi B)"

section \<open>The request handler\<close>



definition make_profile :: "form \<Rightarrow> real \<Rightarrow> real \<Rightarrow> real \<Rightarrow> profile" where
  "make_profile f d fo s =
     \<lparr>full_name = full_name f, age = age f, employment = employment f,
      monthly_income = monthly_income f, monthly_expenses = monthly_expenses f,
      existing_emi = existing_emi f, credit_score = credit_score f,
      loan_amount = loan_amount f, tenure_months = tenure_months f,
      loan_type = loan_type f, disposable_income = d, foir = fo, stability = s\<rparr>"



section \<open>A worked example\<close>

text \<open>
  A twelve-month education loan of 120000 for an applicant with credit score 700 and
  monthly income 100000, and the offers the engine ranks for it at confidence 95.
\<close>

definition example_profile :: profile where
  "example_profile =
     \<lparr>full_name = ''Asha'', age = 30, employment = ''contractor'', monthly_income = 100000,
      monthly_expenses = 20000, existing_emi = 0, credit_score = 700,
      loan_amount = 120000, tenure_months = 12, loan_type = ''Education'',
      disposable_income = 80000, foir = 0.1055, stability = 0.8\<rparr>"

definition example_offers :: "offer list" where
  "example_offers =
     [\<lparr>o_bank = ''SBI'', o_rate = 9.05, o_emi = 10497, o_total_payable = 126564,
       o_processing_fee = 0.5, o_approval = 98, o_foir = 10.5, o_tag = ''Fast Approval''\<rparr>,
      \<lparr>o_bank = ''Bank of Baroda'', o_rate = 9.2, o_emi = 10505, o_total_payable = 126544,
       o_processing_fee = 0.4, o_approval = 98, o_foir = 10.5, o_tag = ''Fast Approval''\<rparr>,
      \<lparr>o_bank = ''Axis'', o_rate = 9.35, o_emi = 10514, o_total_payable = 126944,
       o_processing_fee = 0.65, o_approval = 98, o_foir = 10.5, o_tag = ''Fast Approval''\<rparr>]"



section \<open>The fallback model\<close>

text \<open>
  C5.  Whatever the feature row, \<open>predict\<close> of the fallback model answers with the single
  decision 1 (approve) or 0, and it is 1 exactly when the monthly income is at least
  \<open>loan_amount / 120\<close> and the credit score is at least 650.
\<close>

theorem predict_approve_iff:
  "predict ((mi, la, cs) # rest) = Inr [if mi \<ge> la / 120 \<and> cs \<ge> 650 then 1 else 0]
   \<and> (predict ((mi, la, cs) # rest) = Inr [1] \<longleftrightarrow> mi \<ge> la / 120 \<and> cs \<ge> 650)"
  by (simp add: predict_def)

lemma clamp_bounds:
  fixes s :: real
  shows "0.05 \<le> min (max s 0.05) 0.95 \<and> min (max s 0.05) 0.95 \<le> 0.95"
  by (simp add: min_def max_def)

text \<open>
  C9.  Whatever the feature row, \<open>predict_proba\<close> of the fallback model returns one row
  \<open>[1 - approved, approved]\<close>; its two entries add up to 1 and \<open>approved\<close> lies between
  0.05 and 0.95.
\<close>

theorem predict_proba_complementary:
  "\<exists>approved. predict_proba (x # rest) = Inr [[1 - approved, approved]]
      \<and> (1 - approved) + approved = 1 \<and> 0.05 \<le> approved \<and> approved \<le> 0.95"
proof -
  obtain mi la cs where x: "x = (mi, la, cs)" by (cases x)
  define score where "score = 0.22 + min (max ((cs - 500) / 360) 0) 0.53
     + min (max ((mi - la / 120) / 120000) 0) 0.2"
  have "predict_proba (x # rest)
          = Inr [[1 - min (max score 0.05) 0.95, min (max score 0.05) 0.95]]"
    unfolding predict_proba_def x score_def Let_def by simp
  with clamp_bounds [of score] show ?thesis
    by (intro exI [of _ "min (max score 0.05) 0.95"]) simp
qed

section \<open>The instalment formula: zero rate and monotonicity\<close>

text \<open>
  C6.  At the annual rate 0 and for a term of at least one month, \<open>emi\<close> takes the
  straight-line branch and returns \<open>principal / months\<close>, no division by zero being
  raised; and \<open>emi(120000, 0, 12)\<close> is 10000.
\<close>

theorem emi_zero_rate:
  "1 \<le> m \<Longrightarrow> emi p 0 m = Inr (p / of_int m) \<and> emi 120000 0 12 = Inr 10000"
  by (simp add: emi_def)

theorem emi_zero_rate_witness:
  "(1::int) \<le> 7 \<and> emi 210 0 7 = Inr 30 \<and> emi 120000 0 12 = Inr 10000"
  using emi_zero_rate [of 7 210] by simp




section \<open>The risk scorer at the boundary\<close>

text \<open>
  C4, as stated, fails: at credit score 650, FOIR 0.55 and stability 1 the scorer
  returns the label High with the score 73, not Medium.
\<close>

theorem profile_risk_boundary_not_medium:
  "profile_risk 650 0.55 1 = (''High'', 73) \<and> fst (profile_risk 650 0.55 1) \<noteq> ''Medium''"
  by (simp add: profile_risk_def credit_band_def foir_band_def stability_band_def)

text \<open>
  C4, amended.  For credit score 650, FOIR exactly 0.55 and every stability coefficient
  in (0, 1], the scorer returns the label High: the score is 73 for a stability of at
  least 0.95, 95 for a stability below 0.8, and 85 in between.
\<close>

theorem profile_risk_boundary_high:
  "0 < s \<Longrightarrow> s \<le> 1 \<Longrightarrow>
     profile_risk 650 0.55 s
       = (''High'', if s \<ge> 0.95 then 73 else if s < 0.8 then 95 else 85)"
  by (simp add: profile_risk_def credit_band_def foir_band_def stability_band_def)

theorem profile_risk_boundary_high_witness:
  "(0::real) < 0.85 \<and> (0.85::real) \<le> 1 \<and> profile_risk 650 0.55 0.85 = (''High'', 85)"
  using profile_risk_boundary_high [of "0.85"] by simp

section \<open>Offers on denial\<close>

text \<open>
  C1.  When the prediction is not 1 (approve), \<open>build_offers\<close> returns the empty list,
  whatever the profile and the confidence: the lender table is not consulted and no
  instalment is computed, so nothing can be raised either.
\<close>

theorem build_offers_denied:
  "prediction \<noteq> 1 \<Longrightarrow> build_offers p prediction conf = Inr []"
  by (simp add: build_offers_def)

theorem build_offers_denied_witness:
  "(0::int) \<noteq> 1 \<and>
   build_offers
     (make_profile
        \<lparr>full_name = ''A'', age = 30, employment = ''salaried'', monthly_income = 80000,
         monthly_expenses = 20000, existing_emi = 5000, credit_score = 600,
         loan_amount = 2000000, tenure_months = 240, loan_type = ''Home''\<rparr>
        55000 0.3 1) 0 40 = Inr []"
  using build_offers_denied [of 0] by simp

section \<open>The lender loop\<close>

text \<open>
  When the loop raises nothing, the list it leaves is the accumulator followed by what
  each lender's pass appends, in the order of the lender list.
\<close>

lemma offers_loop_Inr:
  "offers_loop p c bs acc = Inr r \<Longrightarrow> r = acc @ List.map_filter (emitted_offer p c) bs"
proof (induction bs arbitrary: acc)
  case Nil
  then show ?case by simp
next
  case (Cons b bs)
  show ?case
  proof (cases "bank_offer p c b")
    case (Inl e)
    with Cons.prems show ?thesis by simp
  next
    case (Inr v)
    show ?thesis
    proof (cases v)
      case None
      with Inr Cons.prems have "offers_loop p c bs acc = Inr r" by simp
      from Cons.IH [OF this] Inr None show ?thesis
        by (simp add: emitted_offer_def)
    next
      case (Some x)
      with Inr Cons.prems have "offers_loop p c bs (acc @ [x]) = Inr r" by simp
      from Cons.IH [OF this] Inr Some show ?thesis
        by (simp add: emitted_offer_def)
    qed
  qed
qed

lemma emitted_offer_SomeD:
  assumes "emitted_offer p c b = Some x"
  shows "bank_offer p c b = Inr (Some x) \<and> o_bank x = name b \<and> o_rate x = effective_rate p b \<and> min_credit b \<le> credit_score p
     \<and> monthly_income p \<noteq> 0
     \<and> (\<exists>e. emi (loan_amount p) (effective_rate p b) (tenure_months p) = Inr e
          \<and> (existing_emi p + e) / monthly_income p \<le> max_foir b
          \<and> o_emi x = py_round e
          \<and> o_foir x = py_round_nd ((existing_emi p + e) / monthly_income p * 100) 1)"
  using assms
  by (auto simp: emitted_offer_def bank_offer_def bind_err_def Let_def
           split: sum.splits option.splits if_splits)

lemma map_rate_emitted:
  "map o_rate (List.map_filter (emitted_offer p c) bs)
     = map (effective_rate p) (filter (emits p c) bs)"
  by (induction bs) (auto simp: emits_def dest: emitted_offer_SomeD split: option.splits)

lemma map_bank_emitted:
  "map o_bank (List.map_filter (emitted_offer p c) bs) = map name (filter (emits p c) bs)"
  by (induction bs) (auto simp: emits_def dest: emitted_offer_SomeD split: option.splits)

lemma in_map_filterD:
  "y \<in> set (List.map_filter g xs) \<Longrightarrow> \<exists>x. x \<in> set xs \<and> g x = Some y"
  by (induction xs) (auto split: option.splits)

lemma build_offers_approved:
  assumes "build_offers p 1 conf = Inr offs"
  shows "\<exists>banks em. BANKS (loan_type p) = Some banks \<and> offers_loop p conf banks [] = Inr em
           \<and> em = List.map_filter (emitted_offer p conf) banks
           \<and> offs = sort_key offer_key em"
proof -
  from assms obtain banks em where b: "BANKS (loan_type p) = Some banks"
    and l: "offers_loop p conf banks [] = Inr em" and s: "offs = sort_key offer_key em"
    by (auto simp: build_offers_def bind_err_def split: option.splits sum.splits)
  from offers_loop_Inr [OF l] b l s show ?thesis by simp
qed

text \<open>The worked example, evaluated lender by lender.\<close>

lemma example_rate:
  "effective_rate example_profile (mk_bank n r c f q) = py_round_nd (max (r + 0.1) 7.75) 2"
  by (simp add: effective_rate_def example_profile_def mk_bank_def credit_adjustment_def
      foir_adjustment_def stability_adjustment_def add.commute)

lemma example_sbi:
  "bank_offer example_profile 95 (mk_bank ''SBI'' 8.95 650 0.58 0.5) = Inr (Some (example_offers ! 0))"
  unfolding bank_offer_def example_rate
  by (simp add: example_profile_def example_offers_def mk_bank_def bind_err_def emi_def Let_def
        power_divide py_round_def py_round_nd_def py_int_def)

lemma example_bob:
  "bank_offer example_profile 95 (mk_bank ''Bank of Baroda'' 9.1 640 0.59 0.4) = Inr (Some (example_offers ! 1))"
  unfolding bank_offer_def example_rate
  by (simp add: example_profile_def example_offers_def mk_bank_def bind_err_def emi_def Let_def
        power_divide py_round_def py_round_nd_def py_int_def)

lemma example_axis:
  "bank_offer example_profile 95 (mk_bank ''Axis'' 9.25 655 0.57 0.65) = Inr (Some (example_offers ! 2))"
  unfolding bank_offer_def example_rate
  by (simp add: example_profile_def example_offers_def mk_bank_def bind_err_def emi_def Let_def
        power_divide py_round_def py_round_nd_def py_int_def)

lemma example_banks:
  "BANKS (loan_type example_profile)
     = Some [mk_bank ''SBI'' 8.95 650 0.58 0.5, mk_bank ''Bank of Baroda'' 9.1 640 0.59 0.4,
             mk_bank ''Axis'' 9.25 655 0.57 0.65]"
  by (simp add: BANKS_def example_profile_def)

lemma example_sorted: "sort_key offer_key example_offers = example_offers"
  by (simp add: example_offers_def offer_key_def)

lemma example_loop:
  "offers_loop example_profile 95
     [mk_bank ''SBI'' 8.95 650 0.58 0.5, mk_bank ''Bank of Baroda'' 9.1 640 0.59 0.4,
      mk_bank ''Axis'' 9.25 655 0.57 0.65] [] = Inr example_offers"
  by (simp only: offers_loop.simps example_sbi example_bob example_axis sum.case option.case
        append_Nil append_Cons)
     (simp add: example_offers_def)

lemma example_build_offers: "build_offers example_profile 1 95 = Inr example_offers"
  by (simp only: build_offers_def Let_def example_banks option.case example_loop bind_err_def
        sum.case example_sorted simp_thms if_False)

section \<open>Every offer satisfies its lender's constraints\<close>

text \<open>
  C2.  When the prediction is 1 (approve), every offer in the list \<open>build_offers\<close>
  returns was appended by the loop body for a lender \<open>b\<close> of the profile's loan type;
  it carries that lender's name and effective rate; the profile's credit score is at
  least the lender's \<open>min_credit\<close>; the instalment at the effective rate is defined,
  the monthly income is not zero, and the actual FOIR
  \<open>(existing_emi + monthly_emi) / monthly_income\<close> is at most the lender's \<open>max_foir\<close>.
\<close>

theorem build_offers_constraints:
  assumes "build_offers p 1 conf = Inr offs" and "x \<in> set offs"
  shows "\<exists>banks b monthly_emi.
           BANKS (loan_type p) = Some banks \<and> b \<in> set banks
           \<and> bank_offer p conf b = Inr (Some x)
           \<and> o_bank x = name b \<and> o_rate x = effective_rate p b
           \<and> min_credit b \<le> credit_score p
           \<and> monthly_income p \<noteq> 0
           \<and> emi (loan_amount p) (effective_rate p b) (tenure_months p) = Inr monthly_emi
           \<and> (existing_emi p + monthly_emi) / monthly_income p \<le> max_foir b
           \<and> o_emi x = py_round monthly_emi
           \<and> o_foir x = py_round_nd ((existing_emi p + monthly_emi) / monthly_income p * 100) 1"
proof -
  from build_offers_approved [OF assms(1)] obtain banks where
    b: "BANKS (loan_type p) = Some banks"
    and s: "offs = sort_key offer_key (List.map_filter (emitted_offer p conf) banks)"
    by blast
  from assms(2) s have "x \<in> set (List.map_filter (emitted_offer p conf) banks)" by simp
  from in_map_filterD [OF this]
  obtain bk where bk: "bk \<in> set banks" "emitted_offer p conf bk = Some x" by blast
  from emitted_offer_SomeD [OF bk(2)] b bk(1) show ?thesis by blast
qed

theorem build_offers_constraints_witness:
  "build_offers example_profile 1 95 = Inr example_offers
   \<and> example_offers ! 1 \<in> set example_offers
   \<and> (\<exists>banks b monthly_emi.
         BANKS (loan_type example_profile) = Some banks \<and> b \<in> set banks
         \<and> bank_offer example_profile 95 b = Inr (Some (example_offers ! 1))
         \<and> o_bank (example_offers ! 1) = name b
         \<and> o_rate (example_offers ! 1) = effective_rate example_profile b
         \<and> min_credit b \<le> credit_score example_profile
         \<and> monthly_income example_profile \<noteq> 0
         \<and> emi (loan_amount example_profile) (effective_rate example_profile b)
              (tenure_months example_profile) = Inr monthly_emi
         \<and> (existing_emi example_profile + monthly_emi) / monthly_income example_profile
             \<le> max_foir b
         \<and> o_emi (example_offers ! 1) = py_round monthly_emi
         \<and> o_foir (example_offers ! 1)
             = py_round_nd ((existing_emi example_profile + monthly_emi)
                              / monthly_income example_profile * 100) 1)"
proof -
  have x: "example_offers ! 1 \<in> set example_offers" by (simp add: example_offers_def)
  from build_offers_constraints [OF example_build_offers x] example_build_offers x
  show ?thesis by (intro conjI)
qed

section \<open>Ranking\<close>

text \<open>
  Effective rates of the catalogue.  Base rates and the three adjustments are whole
  numbers of hundredths, and every base rate is at least 8.35, so neither the floor of
  7.75 nor the rounding to two places changes \<open>base_rate + adjustments\<close>; within one
  loan type the base rates differ, hence so do the effective rates.
\<close>

lemma py_round_of_int: "py_round (of_int k) = k"
  by (simp add: py_round_def)

lemma py_round_nd_cents: "py_round_nd (of_int k / 100) 2 = of_int k / 100"
  by (simp add: py_round_nd_def py_round_of_int)

lemma adjustment_cents:
  "\<exists>a. - 55 \<le> a \<and> a \<le> 65
      \<and> credit_adjustment p + foir_adjustment p + stability_adjustment p = of_int a / 100"
proof -
  have c: "\<exists>a. - 35 \<le> a \<and> a \<le> 20 \<and> credit_adjustment p = of_int a / 100"
    unfolding credit_adjustment_def 
    by (cases "credit_score p \<ge> 760"; cases "credit_score p \<ge> 720")
       (auto intro: exI [of _ "- 35"] exI [of _ "- 15"] exI [of _ 20])
  have f: "\<exists>a. - 10 \<le> a \<and> a \<le> 25 \<and> foir_adjustment p = of_int a / 100"
    unfolding foir_adjustment_def 
    by (cases "foir p \<le> 0.4"; cases "foir p > 0.5")
       (auto intro: exI [of _ "- 10"] exI [of _ "25"] exI [of _ 0])
  have s: "\<exists>a. - 10 \<le> a \<and> a \<le> 20 \<and> stability_adjustment p = of_int a / 100"
    unfolding stability_adjustment_def 
    by (cases "stability p \<ge> 1"; cases "stability p < 0.8")
       (auto intro: exI [of _ "- 10"] exI [of _ "20"] exI [of _ 0])
  from c f s obtain a1 a2 a3 where
    "- 35 \<le> a1" "a1 \<le> 20" "credit_adjustment p = of_int a1 / 100"
    "- 10 \<le> a2" "a2 \<le> 25" "foir_adjustment p = of_int a2 / 100"
    "- 10 \<le> a3" "a3 \<le> 20" "stability_adjustment p = of_int a3 / 100" by blast
  then show ?thesis
    by (intro exI [of _ "a1 + a2 + a3"]) (simp add: add_divide_distrib)
qed

lemma catalog_cents:
  assumes "BANKS lt = Some banks" "b \<in> set banks"
  shows "\<exists>k. 835 \<le> k \<and> base_rate b = of_int k / 100"
  using assms
  by (intro exI [of _ "\<lfloor>base_rate b * 100\<rfloor>"])
     (auto simp: BANKS_def mk_bank_def split: if_splits)

lemma catalog_distinct:
  assumes "BANKS lt = Some banks"
  shows "distinct (map base_rate banks)"
  using assms by (auto simp: BANKS_def mk_bank_def split: if_splits)

lemma catalog_effective_rate:
  assumes "BANKS lt = Some banks" "b \<in> set banks"
  shows "effective_rate p b
           = base_rate b + (credit_adjustment p + foir_adjustment p + stability_adjustment p)"
proof -
  from catalog_cents [OF assms] obtain k where k: "835 \<le> k" "base_rate b = of_int k / 100"
    by blast
  from adjustment_cents [of p] obtain a where a: "- 55 \<le> a" "a \<le> 65"
    "credit_adjustment p + foir_adjustment p + stability_adjustment p = of_int a / 100"
    by blast
  have sum: "base_rate b + credit_adjustment p + foir_adjustment p + stability_adjustment p
               = of_int (k + a) / 100"
    using k(2) a(3) by (simp add: add_divide_distrib)
  have "(775::int) \<le> k + a" using k(1) a(1) by simp
  then have "(775::real) \<le> of_int (k + a)" by (metis of_int_le_iff of_int_numeral)
  then have "max (of_int (k + a) / 100) (7.75::real) = of_int (k + a) / 100"
    by (simp add: max_def)
  then have "effective_rate p b = of_int (k + a) / 100"
    unfolding effective_rate_def sum by (simp only: py_round_nd_cents)
  with sum show ?thesis by (simp add: add.assoc)
qed

lemma catalog_rates_distinct:
  assumes "BANKS lt = Some banks"
  shows "distinct (map (effective_rate p) banks)"
proof -
  define d where "d = credit_adjustment p + foir_adjustment p + stability_adjustment p"
  have "map (effective_rate p) banks = map (\<lambda>b. base_rate b + d) banks"
    using catalog_effective_rate [OF assms] by (simp add: d_def)
  also have "\<dots> = map (\<lambda>r. r + d) (map base_rate banks)" by simp
  finally show ?thesis
    using catalog_distinct [OF assms] by (simp only: distinct_map) (simp add: inj_on_def)
qed

lemma ranks_before_key: "ranks_before A B \<longleftrightarrow> offer_key A \<le> offer_key B"
  by (auto simp: ranks_before_def offer_key_def)

lemma sort_key_distinct_keys:
  assumes "distinct (map f xs)"
  shows "sorted_wrt (<) (map f (sort_key f xs))"
proof -
  have "distinct (map f (sort_key f xs))"
    using assms by (simp add: distinct_map)
  then show ?thesis by (simp add: strict_sorted_iff)
qed

text \<open>
  C3.  In the list \<open>build_offers\<close> returns, for any two positions \<open>i \<noteq> j\<close> the offer
  at \<open>i\<close> comes before the offer at \<open>j\<close> exactly when it has the lower rate, or the same
  rate and the higher approval fit, or the same rate and fit and an instalment that is
  lower or equal.  The sort is stable: the offers with any one key appear in the result
  in the order in which the loop emitted them, which is the order of the lender
  catalogue.
\<close>

theorem build_offers_ranked:
  assumes "build_offers p prediction conf = Inr offs"
  shows "(\<forall>i j. i < length offs \<and> j < length offs \<and> i \<noteq> j \<longrightarrow>
            (i < j \<longleftrightarrow> ranks_before (offs ! i) (offs ! j)))
         \<and> (prediction = 1 \<longrightarrow>
              (\<exists>banks emitted.
                 BANKS (loan_type p) = Some banks
                 \<and> offers_loop p conf banks [] = Inr emitted
                 \<and> map o_bank emitted = map name (filter (emits p conf) banks)
                 \<and> (\<forall>k. filter (\<lambda>x. offer_key x = k) offs
                           = filter (\<lambda>x. offer_key x = k) emitted)))"
proof (cases "prediction = 1")
  case False
  with assms have "offs = []" by (simp add: build_offers_def)
  with False show ?thesis by simp
next
  case True
  from build_offers_approved [OF assms [unfolded True]] obtain banks em where
    b: "BANKS (loan_type p) = Some banks"
    and l: "offers_loop p conf banks [] = Inr em"
    and em: "em = List.map_filter (emitted_offer p conf) banks"
    and s: "offs = sort_key offer_key em"
    by blast
  have "distinct (map (effective_rate p) (filter (emits p conf) banks))"
    using catalog_rates_distinct [OF b] by (rule distinct_map_filter)
  then have "distinct (map o_rate em)" by (simp add: em map_rate_emitted)
  then have "distinct (map offer_key em)"
    by (auto simp: distinct_map inj_on_def offer_key_def)
  from sort_key_distinct_keys [OF this] have strict: "sorted_wrt (<) (map offer_key offs)"
    by (simp add: s)
  have less: "offer_key (offs ! i) < offer_key (offs ! j)"
    if "i < j" "j < length offs" for i j
    using sorted_wrt_nth_less [OF strict, of i j] that by simp
  have rank: "i < j \<longleftrightarrow> ranks_before (offs ! i) (offs ! j)"
    if "i < length offs" "j < length offs" "i \<noteq> j" for i j
  proof (cases "i < j")
    case True
    with less [OF True that(2)] show ?thesis by (simp add: ranks_before_key)
  next
    case False
    with that(3) have "j < i" by simp
    from less [OF this that(1)] False show ?thesis by (simp add: ranks_before_key)
  qed
  have stable: "filter (\<lambda>x. offer_key x = k) offs = filter (\<lambda>x. offer_key x = k) em" for k
    unfolding s by (rule sort_key_stable)
  have "map o_bank em = map name (filter (emits p conf) banks)"
    by (simp add: em map_bank_emitted)
  with b l stable rank True show ?thesis by blast
qed

theorem build_offers_ranked_witness:
  "build_offers example_profile 1 95 = Inr example_offers
   \<and> ranks_before (example_offers ! 0) (example_offers ! 1)
   \<and> \<not> ranks_before (example_offers ! 1) (example_offers ! 0)
   \<and> (\<exists>emitted. offers_loop example_profile 95
          [mk_bank ''SBI'' 8.95 650 0.58 0.5, mk_bank ''Bank of Baroda'' 9.1 640 0.59 0.4,
           mk_bank ''Axis'' 9.25 655 0.57 0.65] [] = Inr emitted
        \<and> filter (\<lambda>x. offer_key x = offer_key (example_offers ! 0)) example_offers
            = filter (\<lambda>x. offer_key x = offer_key (example_offers ! 0)) emitted)"
proof -
  have len: "length example_offers = 3" by (simp add: example_offers_def)
  from build_offers_ranked [OF example_build_offers]
  have r: "\<forall>i j. i < length example_offers \<and> j < length example_offers \<and> i \<noteq> j \<longrightarrow>
            (i < j \<longleftrightarrow> ranks_before (example_offers ! i) (example_offers ! j))"
    and st: "\<exists>banks emitted.
                 BANKS (loan_type example_profile) = Some banks
                 \<and> offers_loop example_profile 95 banks [] = Inr emitted
                 \<and> map o_bank emitted = map name (filter (emits example_profile 95) banks)
                 \<and> (\<forall>k. filter (\<lambda>x. offer_key x = k) example_offers
                           = filter (\<lambda>x. offer_key x = k) emitted)"
    by simp_all
  from r [rule_format, of 0 1] r [rule_format, of 1 0] len
  have "ranks_before (example_offers ! 0) (example_offers ! 1)"
       "\<not> ranks_before (example_offers ! 1) (example_offers ! 0)" by simp_all
  moreover from st example_banks have "\<exists>emitted. offers_loop example_profile 95
          [mk_bank ''SBI'' 8.95 650 0.58 0.5, mk_bank ''Bank of Baroda'' 9.1 640 0.59 0.4,
           mk_bank ''Axis'' 9.25 655 0.57 0.65] [] = Inr emitted
        \<and> filter (\<lambda>x. offer_key x = offer_key (example_offers ! 0)) example_offers
            = filter (\<lambda>x. offer_key x = offer_key (example_offers ! 0)) emitted"
    by (metis option.inject)
  ultimately show ?thesis using example_build_offers by blast
qed

section \<open>The request handler on a zero income\<close>




section \<open>Unlisted employment categories\<close>











end
